theory Spec2Isabelle
  imports Main "HOL-Library.Sublist"
begin

section \<open>Python values used by may.py\<close>

text \<open>
  Exceptions are values. Only the three exceptions that \<^verbatim>\<open>may.py\<close> can raise or
  catch by itself are named; every other failure (of a script being loaded, or of a
  script's own entry operation) is \<open>OtherError\<close> with a tag.
\<close>

datatype exn = ModuleNotFoundError | IndexError | AttributeError | OtherError string

text \<open>
  \<^verbatim>\<open>s.split(sep)\<close> for a non-empty separator: the text is scanned from the left, every
  occurrence of the separator found there is cut out, and the pieces between the cuts
  are returned, empty pieces included. Both call sites of \<^verbatim>\<open>may.py\<close> pass a non-empty
  literal (\<^verbatim>\<open>"==="\<close> and \<^verbatim>\<open>" "\<close>); Python raises ValueError on an empty separator,
  which no call site can reach.
\<close>

function str_split :: "string \<Rightarrow> string \<Rightarrow> string list" where
  "str_split sep [] = ['''']"
| "str_split sep (c # cs) =
     (if sep \<noteq> [] \<and> prefix sep (c # cs)
      then [] # str_split sep (drop (length sep) (c # cs))
      else (case str_split sep cs of [] \<Rightarrow> [c # []] | w # ws \<Rightarrow> (c # w) # ws))"
  by pat_completeness auto
termination
  by (relation "measure (\<lambda>(sep, s). length s)") (auto simp: neq_Nil_conv)

text \<open>\<^verbatim>\<open>sep.join(xs)\<close>.\<close>

fun str_join :: "string \<Rightarrow> string list \<Rightarrow> string" where
  "str_join sep [] = []"
| "str_join sep [x] = x"
| "str_join sep (x # y # ys) = x @ sep @ str_join sep (y # ys)"

section \<open>The Doc Extractor\<close>

text \<open>
  \<^verbatim>\<open>
  def extract_doc_title(string):
      doc_title = string.split("===")[0]
      if len(doc_title) > 0:
          if re.match("^\n", doc_title):
              doc_title = doc_title[1:]
          if doc_title[-1] == '\n':
              doc_title = doc_title[:-1]
      return doc_title
  \<close>
  \<^verbatim>\<open>re.match("^\n", d)\<close> succeeds exactly when \<open>d\<close> starts with a newline. Indexing
  a list at 0 and a string at -1 raises IndexError when there is no such element.
\<close>

definition re_match_newline :: "string \<Rightarrow> bool" where
  "re_match_newline d = prefix ''\<newline>'' d"

definition extract_doc_title :: "string \<Rightarrow> exn + string" where
  "extract_doc_title string =
     (case str_split ''==='' string of
        [] \<Rightarrow> Inl IndexError
      | doc_title # _ \<Rightarrow>
          if length doc_title > 0 then
            (let doc_title1 = (if re_match_newline doc_title then drop 1 doc_title else doc_title)
             in if doc_title1 = [] then Inl IndexError
                else if last doc_title1 = CHR ''\<newline>'' then Inr (butlast doc_title1)
                else Inr doc_title1)
          else Inr doc_title)"

text \<open>
  The claims about the Doc Extractor speak of "the portion of the string before the first
  occurrence of the delimiter" and of removing one leading and one trailing newline.
  These definitions follow those words, to be compared with \<open>extract_doc_title\<close>.
\<close>

fun before_first :: "string \<Rightarrow> string \<Rightarrow> string" where
  "before_first delim [] = []"
| "before_first delim (c # cs) =
     (if prefix delim (c # cs) then [] else c # before_first delim cs)"

definition strip_leading_newline :: "string \<Rightarrow> string" where
  "strip_leading_newline s = (case s of [] \<Rightarrow> [] | c # cs \<Rightarrow> if c = CHR ''\<newline>'' then cs else s)"

definition strip_trailing_newline :: "string \<Rightarrow> string" where
  "strip_trailing_newline s = (if s \<noteq> [] \<and> last s = CHR ''\<newline>'' then butlast s else s)"

definition extract_title_spec :: "string \<Rightarrow> string" where
  "extract_title_spec s =
     (let p = before_first ''==='' s
      in if p \<noteq> [] then strip_trailing_newline (strip_leading_newline p) else p)"

section \<open>The Script Enumerator\<close>

text \<open>
  \<^verbatim>\<open>re.match("(.+)\.py", item)\<close> is anchored at the start of the name only, not at its
  end. The group \<^verbatim>\<open>(.+)\<close> is greedy, takes at least one character and never a newline:
  the matcher tries the longest newline-free prefix first and gives characters back one
  at a time until the literal \<^verbatim>\<open>.py\<close> follows. \<open>re_match_py\<close> returns group 1.
\<close>

fun re_match_py_from :: "nat \<Rightarrow> string \<Rightarrow> string option" where
  "re_match_py_from 0 item = None"
| "re_match_py_from (Suc n) item =
     (if prefix ''.py'' (drop (Suc n) item) then Some (take (Suc n) item)
      else re_match_py_from n item)"

definition re_match_py :: "string \<Rightarrow> string option" where
  "re_match_py item =
     re_match_py_from (length (takeWhile (\<lambda>c. c \<noteq> CHR ''\<newline>'') item)) item"

text \<open>
  \<^verbatim>\<open>
  @iterated
  def get_import_names(base_path):
      for item in os.listdir(base_path):
          if item == "may.bat" or item == "may.py" or item == "__pycache__":
              continue
          if os.path.isfile(os.path.join(base_path, item)):
              m = re.match("(.+)\.py", item)
              if m:
                  yield m.group(1)
          else:
              yield item
  \<close>
  The file system is a parameter: the listing of the base directory, in the order
  \<^verbatim>\<open>os.listdir\<close> gives it, and the predicate \<^verbatim>\<open>os.path.isfile\<close> on its entries.
  The decorator \<^verbatim>\<open>iterated\<close> collects what the generator yields into a list.
\<close>

fun get_import_names :: "(string \<Rightarrow> bool) \<Rightarrow> string list \<Rightarrow> string list" where
  "get_import_names isfile [] = []"
| "get_import_names isfile (item # items) =
     (if item = ''may.bat'' \<or> item = ''may.py'' \<or> item = ''__pycache__''
      then get_import_names isfile items
      else if isfile item then
        (case re_match_py item of
           Some stem \<Rightarrow> stem # get_import_names isfile items
         | None \<Rightarrow> get_import_names isfile items)
      else item # get_import_names isfile items)"

section \<open>Dynamic loading and the Quick-Doc Collector\<close>

text \<open>
  A loaded module shows \<^verbatim>\<open>may.py\<close> two attributes: \<^verbatim>\<open>__doc__\<close> (a string or None)
  and, when it has one, \<^verbatim>\<open>main\<close>. Calling \<^verbatim>\<open>main(args)\<close> prints some texts and then
  returns or raises. \<^verbatim>\<open>__import__\<close> is a parameter \<open>imp\<close>: it loads the module or raises.
\<close>

record module =
  doc :: "string option"
  main_op :: "(string list \<Rightarrow> string list \<times> exn option) option"

datatype import_result = Raises exn | Loaded module

text \<open>\<^verbatim>\<open>doc if doc else ""\<close>: None and the empty string are both falsy.\<close>

definition doc_or_empty :: "module \<Rightarrow> string" where
  "doc_or_empty m = (case doc m of None \<Rightarrow> [] | Some d \<Rightarrow> if d \<noteq> [] then d else [])"

record descriptor =
  name :: string
  title :: string

text \<open>
  \<^verbatim>\<open>
  @iterated
  def get_quick_doc(names):
      for name in names:
          try:
              doc = __import__(name).__doc__
              yield {'name': name, 'title': extract_doc_title(doc if doc else "")}
          except ModuleNotFoundError:
              pass
  \<close>
  The \<^verbatim>\<open>try\<close> block holds the import and the call of \<open>extract_doc_title\<close>; only
  ModuleNotFoundError is handled. Any other exception leaves the generator, and
  \<^verbatim>\<open>iterated\<close> with it, so no list is returned.
\<close>

fun get_quick_doc :: "(string \<Rightarrow> import_result) \<Rightarrow> string list \<Rightarrow> exn + descriptor list" where
  "get_quick_doc imp [] = Inr []"
| "get_quick_doc imp (nm # names) =
     (case (case imp nm of
              Raises e \<Rightarrow> Inl e
            | Loaded m \<Rightarrow>
                (case extract_doc_title (doc_or_empty m) of
                   Inl e \<Rightarrow> Inl e
                 | Inr t \<Rightarrow> Inr \<lparr>name = nm, title = t\<rparr>)) of
        Inl e \<Rightarrow> if e = ModuleNotFoundError then get_quick_doc imp names else Inl e
      | Inr d \<Rightarrow>
          (case get_quick_doc imp names of Inl e \<Rightarrow> Inl e | Inr ds \<Rightarrow> Inr (d # ds)))"

section \<open>The Text Layout Helper\<close>

text \<open>
  \<^verbatim>\<open>
  def multiple_lines(text, line_length):
      lines = []
      line = ""
      for word in text.split(" "):
          if line == "":
              candidate = word
          else:
              candidate = line + " " + word
          if len(candidate) < line_length:
              line = candidate
          else:
              lines.append(line)
              line = word
      if len(line) > 0:
          lines.append(line)
      if len(lines) == 0:
          lines.append("")
      return lines
  \<close>
  The loop state is the pair \<open>(lines, line)\<close>; \<open>line_length\<close> is a Python integer.
\<close>

definition multiple_lines_step :: "int \<Rightarrow> string list \<times> string \<Rightarrow> string \<Rightarrow> string list \<times> string" where
  "multiple_lines_step line_length st word =
     (case st of (lines, line) \<Rightarrow>
        (let candidate = (if line = [] then word else line @ '' '' @ word)
         in if int (length candidate) < line_length then (lines, candidate)
            else (lines @ [line], word)))"

definition multiple_lines :: "string \<Rightarrow> int \<Rightarrow> string list" where
  "multiple_lines text line_length =
     (case foldl (multiple_lines_step line_length) ([], []) (str_split '' '' text) of
        (lines, line) \<Rightarrow>
          (let lines1 = (if length line > 0 then lines @ [line] else lines)
           in if length lines1 = 0 then lines1 @ [''''] else lines1))"

text \<open>
  \<^verbatim>\<open>
  def longest_text(text_list):
      max_length = 0
      for text in text_list:
          if len(text) > max_length:
              max_length = len(text)
      return max_length
  \<close>
\<close>

definition longest_text :: "string list \<Rightarrow> nat" where
  "longest_text text_list =
     foldl (\<lambda>max_length text. if length text > max_length then length text else max_length)
       0 text_list"

text \<open>
  \<^verbatim>\<open>
  def adjusted_legth_text(text, length):
      if len(text) < length:
          return text + "".join([" " for _ in range(length - len(text))])
      return text
  \<close>
  \<^verbatim>\<open>range(n)\<close> is \<open>[0..n - 1]\<close>, empty when \<open>n \<le> 0\<close>.
\<close>

definition py_range :: "int \<Rightarrow> int list" where
  "py_range n = [0..n - 1]"

definition adjusted_legth_text :: "string \<Rightarrow> int \<Rightarrow> string" where
  "adjusted_legth_text text len =
     (if int (length text) < len
      then text @ str_join [] (map (\<lambda>_. '' '') (py_range (len - int (length text))))
      else text)"

section \<open>The Help Renderer\<close>

definition INLINE_DOC_CHARS :: int where
  "INLINE_DOC_CHARS = 70"

text \<open>\<^verbatim>\<open>" {}\t{}\n".format(a, b)\<close>\<close>

definition format_row :: "string \<Rightarrow> string \<Rightarrow> string" where
  "format_row a b = '' '' @ a @ [CHR 0x09] @ b @ ''\<newline>''"

text \<open>\<^verbatim>\<open>enumerate(xs)\<close>\<close>

definition enumerate_py :: "'a list \<Rightarrow> (nat \<times> 'a) list" where
  "enumerate_py xs = zip [0..<length xs] xs"

text \<open>
  \<^verbatim>\<open>
  def available_scripts():
      script_names = get_import_names(os.path.dirname(os.path.realpath(__file__)))
      max_length = longest_text(script_names)
      data = get_quick_doc(script_names)
      res = ""
      for item in data:
          for i, line in enumerate(multiple_lines(item['title'], INLINE_DOC_CHARS)):
              if i == 0:
                  res += " {}\t{}\n".format(adjusted_legth_text(item['name'], max_length), line)
              else:
                  res += " {}\t{}\n".format(adjusted_legth_text('', max_length), line)
      return res
  \<close>
  Both loops thread the string \<open>res\<close>.
\<close>

definition available_scripts_row :: "nat \<Rightarrow> descriptor \<Rightarrow> string \<Rightarrow> nat \<times> string \<Rightarrow> string" where
  "available_scripts_row max_length item res il =
     (case il of (i, line) \<Rightarrow>
        if i = 0
        then res @ format_row (adjusted_legth_text (name item) (int max_length)) line
        else res @ format_row (adjusted_legth_text [] (int max_length)) line)"

definition available_scripts_item :: "nat \<Rightarrow> string \<Rightarrow> descriptor \<Rightarrow> string" where
  "available_scripts_item max_length res item =
     foldl (available_scripts_row max_length item) res
       (enumerate_py (multiple_lines (title item) INLINE_DOC_CHARS))"

definition available_scripts ::
  "(string \<Rightarrow> bool) \<Rightarrow> string list \<Rightarrow> (string \<Rightarrow> import_result) \<Rightarrow> exn + string" where
  "available_scripts isfile listing imp =
     (let script_names = get_import_names isfile listing;
          max_length = longest_text script_names
      in case get_quick_doc imp script_names of
           Inl e \<Rightarrow> Inl e
         | Inr data \<Rightarrow> Inr (foldl (available_scripts_item max_length) [] data))"

text \<open>\<open>general_help\<close> puts the listing into the fixed banner, at its \<^verbatim>\<open>{}\<close>.\<close>

definition banner_before :: string where
  "banner_before =
     ''This tool is a generic script manager that acts as a controller of scripts of different'' @
     ''\<newline>kinds.\<newline> may <script name> --help'' @ [CHR 0x09] @
     ''Quick help and parameters description\<newline> may manual <script name>'' @ [CHR 0x09] @
     ''Read the full manual of this script\<newline>'' @ [CHR 0x09] @
     ''\<newline>Below, a list of the available scripts:\<newline>\<newline>''"

definition banner_after :: string where
  "banner_after = ''\<newline>\<newline>''"

definition general_help ::
  "(string \<Rightarrow> bool) \<Rightarrow> string list \<Rightarrow> (string \<Rightarrow> import_result) \<Rightarrow> exn + string" where
  "general_help isfile listing imp =
     (case available_scripts isfile listing imp of
        Inl e \<Rightarrow> Inl e
      | Inr s \<Rightarrow> Inr (banner_before @ s @ banner_after))"

section \<open>The Dispatcher\<close>

text \<open>
  \<^verbatim>\<open>
  def main():
      if len(sys.argv) <= 1:
          print(general_help())
      else:
          if sys.argv[1] == "manual" and len(sys.argv) == 3:
              try:
                  doc = __import__(sys.argv[2]).__doc__
                  print(doc if doc else "")
              except ModuleNotFoundError:
                  print("ERROR: Script not found")
          else:
              try:
                  args = sys.argv[2:]
                  __import__(sys.argv[1]).main(args)
              except ModuleNotFoundError:
                  print("ERROR: Script not found")
  \<close>
  The outcome of a run is the list of texts given to \<^verbatim>\<open>print\<close>, in order (the texts a
  script's own \<open>main\<close> prints included), and the exception that leaves \<open>main\<close>, if any.
  A module without a \<open>main\<close> attribute raises AttributeError. In the last branch the
  \<^verbatim>\<open>try\<close> block holds the call of the script's \<open>main\<close> as well as its import.
\<close>

definition not_found_message :: string where
  "not_found_message = ''ERROR: Script not found''"

definition handle_not_found :: "string list \<Rightarrow> exn \<Rightarrow> string list \<times> exn option" where
  "handle_not_found out e =
     (if e = ModuleNotFoundError then (out @ [not_found_message], None) else (out, Some e))"

definition main ::
  "(string \<Rightarrow> bool) \<Rightarrow> string list \<Rightarrow> (string \<Rightarrow> import_result) \<Rightarrow> string list
     \<Rightarrow> string list \<times> exn option" where
  "main isfile listing imp argv =
     (if length argv \<le> 1 then
        (case general_help isfile listing imp of
           Inl e \<Rightarrow> ([], Some e)
         | Inr h \<Rightarrow> ([h], None))
      else if argv ! 1 = ''manual'' \<and> length argv = 3 then
        (case imp (argv ! 2) of
           Raises e \<Rightarrow> handle_not_found [] e
         | Loaded m \<Rightarrow> ([doc_or_empty m], None))
      else
        (let args = drop 2 argv
         in case imp (argv ! 1) of
              Raises e \<Rightarrow> handle_not_found [] e
            | Loaded m \<Rightarrow>
                (case main_op m of
                   None \<Rightarrow> ([], Some AttributeError)
                 | Some f \<Rightarrow>
                     (case f args of
                        (out, None) \<Rightarrow> (out, None)
                      | (out, Some e) \<Rightarrow> handle_not_found out e))))"

section \<open>Facts about splitting and joining\<close>

lemma str_split_not_Nil: "str_split sep s \<noteq> []"
  by (induction sep s rule: str_split.induct) (auto split: list.splits)

lemma str_join_Cons: "ys \<noteq> [] \<Longrightarrow> str_join sep (x # ys) = x @ sep @ str_join sep ys"
  by (cases ys) simp_all

lemma str_join_Cons_Cons: "str_join sep ((c # w) # ws) = c # str_join sep (w # ws)"
  by (cases ws) simp_all

lemma str_join_split: "sep \<noteq> [] \<Longrightarrow> str_join sep (str_split sep s) = s"
proof (induction sep s rule: str_split.induct)
  case (1 sep)
  then show ?case by simp
next
  case (2 sep c cs)
  show ?case
  proof (cases "prefix sep (c # cs)")
    case True
    then obtain r where r: "c # cs = sep @ r" by (auto simp: prefix_def)
    have "str_join sep (str_split sep (drop (length sep) (c # cs))) = drop (length sep) (c # cs)"
      using 2 True by simp
    moreover have "str_split sep (c # cs) = [] # str_split sep (drop (length sep) (c # cs))"
      using True 2(3) by simp
    moreover have "sep @ drop (length sep) (c # cs) = c # cs"
      using r by simp
    ultimately show ?thesis
      by (simp add: str_join_Cons str_split_not_Nil del: str_split.simps)
  next
    case False
    obtain w ws where ws: "str_split sep cs = w # ws"
      using str_split_not_Nil [of sep cs] by (cases "str_split sep cs") auto
    have "str_join sep (w # ws) = cs" using 2 False ws by simp
    with False ws show ?thesis by (simp add: str_join_Cons_Cons)
  qed
qed

lemma hd_str_split: "sep \<noteq> [] \<Longrightarrow> hd (str_split sep s) = before_first sep s"
  by (induction sep s rule: str_split.induct) (auto split: list.splits simp: str_split_not_Nil)

lemma str_split_hd_tl: "sep \<noteq> [] \<Longrightarrow> \<exists>ws. str_split sep s = before_first sep s # ws"
  using hd_str_split [of sep s] str_split_not_Nil [of sep s]
  by (cases "str_split sep s") auto

lemma str_join_merge:
  "str_join sep (xs @ (a @ sep @ b) # ys) = str_join sep (xs @ a # b # ys)"
proof (induction xs)
  case Nil
  show ?case by (cases ys) simp_all
next
  case (Cons x xs)
  then show ?case by (simp add: str_join_Cons)
qed

section \<open>The Doc Extractor: what it returns and where it raises\<close>

text \<open>
  The code agrees with the wording of the specification on every input but those whose
  part before the delimiter is exactly one newline; there it raises IndexError.
\<close>

lemma extract_doc_title_eq:
  "extract_doc_title s =
     (if before_first ''==='' s = ''\<newline>'' then Inl IndexError else Inr (extract_title_spec s))"
proof -
  obtain ws where ws: "str_split ''==='' s = before_first ''==='' s # ws"
    using str_split_hd_tl [of "''===''" s] by auto
  show ?thesis
  proof (cases "before_first ''==='' s")
    case Nil
    with ws show ?thesis by (simp add: extract_doc_title_def extract_title_spec_def)
  next
    case (Cons c cs)
    with ws show ?thesis
      by (cases cs)
         (auto simp: extract_doc_title_def extract_title_spec_def re_match_newline_def
                  strip_leading_newline_def strip_trailing_newline_def Let_def)
  qed
qed

lemma extract_doc_title_examples:
  "extract_doc_title ''Title\<newline>===\<newline>body'' = Inr ''Title''"
  "extract_doc_title '''' = Inr ''''"
  "extract_doc_title ''\<newline>Title\<newline>===x'' = Inr ''Title''"
  "extract_doc_title ''NoDelimiterHere'' = Inr ''NoDelimiterHere''"
  by (simp_all add: extract_doc_title_def re_match_newline_def)

lemma extract_doc_title_refines:
  "before_first ''==='' s \<noteq> ''\<newline>'' \<Longrightarrow> extract_doc_title s = Inr (extract_title_spec s)"
  by (simp add: extract_doc_title_eq)

lemma extract_doc_title_raises_iff:
  "(extract_doc_title s = Inl IndexError) = (before_first ''==='' s = ''\<newline>'')"
  by (simp add: extract_doc_title_eq)

lemma extract_doc_title_error: "extract_doc_title s = Inl e \<Longrightarrow> e = IndexError"
  by (simp add: extract_doc_title_eq split: if_splits)

text \<open>
  Claim C1 says that the Doc Extractor is total: it returns a string for every input
  string, the lone newline included, and never raises. The code does not do so. On the
  lone newline the part before the delimiter is the newline itself; the leading newline
  is removed, and the test of the last character then indexes the empty string, which
  raises IndexError.
\<close>

theorem extract_doc_title_lone_newline_raises:
  "extract_doc_title ''\<newline>'' = Inl IndexError"
  by (simp add: extract_doc_title_def re_match_newline_def)

text \<open>
  Claim C7 says that for every input string the Doc Extractor returns the part before
  the first \<^verbatim>\<open>===\<close> with, when that part is not empty, one leading and one trailing
  newline removed. By that wording a text that starts with a newline followed at once by
  the delimiter has the empty title; the code raises IndexError on it (the defect of
  claim C1). On every other input the code returns what the wording says
  (\<open>extract_doc_title_refines\<close>), the four examples of the claim among them
  (\<open>extract_doc_title_examples\<close>).
\<close>

theorem extract_doc_title_newline_before_delimiter:
  "extract_doc_title ''\<newline>===x'' = Inl IndexError \<and> extract_title_spec ''\<newline>===x'' = ''''"
  by (simp add: extract_doc_title_def re_match_newline_def extract_title_spec_def
        strip_leading_newline_def strip_trailing_newline_def)

section \<open>The Script Enumerator\<close>

lemma re_match_py_stem:
  assumes "stem \<noteq> []" and "CHR ''\<newline>'' \<notin> set stem"
  shows "re_match_py (stem @ ''.py'') = Some stem"
proof -
  obtain k where k: "length stem = Suc k" using assms(1) by (cases stem) auto
  have tw: "takeWhile (\<lambda>c. c \<noteq> CHR ''\<newline>'') (stem @ ''.py'') = stem @ ''.py''"
    using assms(2) by (auto simp: takeWhile_eq_all_conv)
  have "re_match_py_from (Suc (Suc (Suc (Suc k)))) (stem @ ''.py'') = Some stem"
    using k by simp
  then show ?thesis
    using k by (simp add: re_match_py_def tw del: re_match_py_from.simps)
qed

lemma re_match_py_from_Some:
  "re_match_py_from n item = Some stem \<Longrightarrow>
     stem \<noteq> [] \<and> prefix (stem @ ''.py'') item \<and> length stem \<le> n"
proof (induction n)
  case 0
  then show ?case by simp
next
  case (Suc n)
  show ?case
  proof (cases "prefix ''.py'' (drop (Suc n) item)")
    case True
    then obtain r where r: "drop (Suc n) item = ''.py'' @ r" by (auto simp: prefix_def)
    then have len: "Suc n < length item" by (cases "Suc n < length item") auto
    have "item = take (Suc n) item @ ''.py'' @ r"
      using r append_take_drop_id [of "Suc n" item] by simp
    then have "prefix (take (Suc n) item @ ''.py'') item"
      by (metis append.assoc prefixI)
    moreover have "stem = take (Suc n) item" using True Suc.prems by simp
    ultimately show ?thesis using len by auto
  next
    case False
    with Suc show ?thesis by auto
  qed
qed

lemma re_match_py_Some:
  "re_match_py item = Some stem \<Longrightarrow> stem \<noteq> [] \<and> prefix (stem @ ''.py'') item"
  unfolding re_match_py_def by (drule re_match_py_from_Some) simp

lemma get_import_names_reserved:
  "item = ''may.bat'' \<or> item = ''may.py'' \<or> item = ''__pycache__'' \<Longrightarrow>
     get_import_names isfile (item # items) = get_import_names isfile items"
  by auto

lemma get_import_names_nonfile:
  "\<not> isfile item \<Longrightarrow> item \<noteq> ''may.bat'' \<Longrightarrow> item \<noteq> ''may.py'' \<Longrightarrow> item \<noteq> ''__pycache__'' \<Longrightarrow>
     get_import_names isfile (item # items) = item # get_import_names isfile items"
  by simp

lemma get_import_names_py_file:
  "isfile (stem @ ''.py'') \<Longrightarrow> stem \<noteq> [] \<Longrightarrow> stem \<noteq> ''may'' \<Longrightarrow> CHR ''\<newline>'' \<notin> set stem \<Longrightarrow>
     get_import_names isfile ((stem @ ''.py'') # items) = stem # get_import_names isfile items"
  by (simp add: re_match_py_stem)

lemma get_import_names_example:
  "get_import_names (\<lambda>n. n \<in> {''foo.py'', ''may.bat'', ''may.py''})
     [''foo.py'', ''bar'', ''may.bat'', ''may.py'', ''__pycache__''] = [''foo'', ''bar'']"
  by (simp add: re_match_py_def)

text \<open>
  Claim C5 says that the enumerator skips the three reserved names, yields the full name
  of every entry that is not a regular file, and for a regular file yields the stem
  exactly when the file is named \<^verbatim>\<open><stem>.py\<close>, and nothing for any other file. The
  first two parts hold (\<open>get_import_names_reserved\<close>, \<open>get_import_names_nonfile\<close>),
  a file named \<^verbatim>\<open><stem>.py\<close> yields its stem (\<open>get_import_names_py_file\<close>), and the
  directory of the claim yields foo and bar (\<open>get_import_names_example\<close>). The last part
  fails: the pattern is matched at the start of the name only, so a regular file whose
  name merely continues after \<^verbatim>\<open>.py\<close>, such as a compiled \<^verbatim>\<open>foo.pyc\<close>, yields a name too.
\<close>

theorem get_import_names_unanchored:
  "get_import_names (\<lambda>n. n = ''foo.pyc'') [''foo.pyc''] = [''foo'']"
  by (simp add: re_match_py_def)

section \<open>The Quick-Doc Collector\<close>

lemma get_quick_doc_not_ModuleNotFoundError:
  "get_quick_doc imp names \<noteq> Inl ModuleNotFoundError"
  by (induction names) (auto split: import_result.splits sum.splits dest: extract_doc_title_error)

lemma get_quick_doc_skip:
  "imp nm = Raises ModuleNotFoundError \<Longrightarrow>
     get_quick_doc imp (nm # names) = get_quick_doc imp names"
  by simp

lemma get_quick_doc_other_failure:
  "nm \<in> set names \<Longrightarrow> imp nm = Raises e \<Longrightarrow> e \<noteq> ModuleNotFoundError \<Longrightarrow>
     \<exists>e'. get_quick_doc imp names = Inl e'"
  by (induction names) (auto split: import_result.splits sum.splits)

lemma get_quick_doc_descriptors:
  "\<forall>nm\<in>set names. imp nm = Raises ModuleNotFoundError \<or>
       (\<exists>m t. imp nm = Loaded m \<and> extract_doc_title (doc_or_empty m) = Inr t) \<Longrightarrow>
   \<exists>ds. get_quick_doc imp names = Inr ds \<and>
        map name ds = filter (\<lambda>nm. imp nm \<noteq> Raises ModuleNotFoundError) names \<and>
        (\<forall>d\<in>set ds. \<exists>m. imp (name d) = Loaded m \<and>
                        extract_doc_title (doc_or_empty m) = Inr (title d))"
proof (induction names)
  case Nil
  then show ?case by simp
next
  case (Cons nm names)
  then obtain ds where ds: "get_quick_doc imp names = Inr ds"
      "map name ds = filter (\<lambda>nm. imp nm \<noteq> Raises ModuleNotFoundError) names"
      "\<forall>d\<in>set ds. \<exists>m. imp (name d) = Loaded m \<and>
                        extract_doc_title (doc_or_empty m) = Inr (title d)"
    by auto
  from Cons.prems consider "imp nm = Raises ModuleNotFoundError"
    | m t where "imp nm = Loaded m" "extract_doc_title (doc_or_empty m) = Inr t"
    by auto
  then show ?case
  proof cases
    case 1
    with ds show ?thesis by simp
  next
    case 2
    with ds show ?thesis by simp
  qed
qed

lemma get_quick_doc_names:
  "get_quick_doc imp names = Inr ds \<Longrightarrow> d \<in> set ds \<Longrightarrow> name d \<in> set names"
proof (induction names arbitrary: ds)
  case Nil
  then show ?case by simp
next
  case (Cons nm names)
  then show ?case
    by (fastforce split: import_result.splits sum.splits if_splits)
qed

text \<open>
  Claim C6 says that the collector emits one descriptor for each name that resolves, in
  input order, leaves out exactly the names whose loading raises ModuleNotFoundError, and
  lets any other failure of loading end the whole listing. That holds as long as the
  Doc Extractor returns (\<open>get_quick_doc_descriptors\<close>, \<open>get_quick_doc_skip\<close>,
  \<open>get_quick_doc_other_failure\<close>). A module that resolves and whose documentation starts
  with a newline followed at once by the delimiter gets no descriptor: the IndexError of
  the Doc Extractor (the defect of claim C1) is raised inside the \<^verbatim>\<open>try\<close> block, is not
  a ModuleNotFoundError, and ends the listing.
\<close>

theorem get_quick_doc_title_failure_aborts:
  "get_quick_doc (\<lambda>n. Loaded \<lparr>doc = Some ''\<newline>===\<newline>Manual'', main_op = None\<rparr>) [''m''] = Inl IndexError"
  by (simp add: doc_or_empty_def extract_doc_title_def re_match_newline_def)

section \<open>The Text Layout Helper\<close>

lemma multiple_lines_loop:
  "[] \<notin> set ws \<Longrightarrow> line \<noteq> [] \<Longrightarrow>
   \<exists>lines' line'. foldl (multiple_lines_step w) (lines, line) ws = (lines', line') \<and>
     line' \<noteq> [] \<and> str_join '' '' (lines' @ [line']) = str_join '' '' (lines @ line # ws)"
proof (induction ws arbitrary: lines line)
  case Nil
  then show ?case by simp
next
  case (Cons x ws)
  then have x: "x \<noteq> []" and ws: "[] \<notin> set ws" by auto
  show ?case
  proof (cases "int (length (line @ '' '' @ x)) < w")
    case True
    then have step: "multiple_lines_step w (lines, line) x = (lines, line @ '' '' @ x)"
      using Cons.prems by (simp add: multiple_lines_step_def)
    from Cons.IH [OF ws, of "line @ '' '' @ x" lines]
    obtain lines' line' where
      "foldl (multiple_lines_step w) (lines, line @ '' '' @ x) ws = (lines', line')"
      "line' \<noteq> []"
      "str_join '' '' (lines' @ [line']) = str_join '' '' (lines @ (line @ '' '' @ x) # ws)"
      by auto
    with step str_join_merge [of "'' ''" lines line x ws] show ?thesis
      by simp
  next
    case False
    then have step: "multiple_lines_step w (lines, line) x = (lines @ [line], x)"
      using Cons.prems by (simp add: multiple_lines_step_def)
    from Cons.IH [OF ws x, of "lines @ [line]"] step show ?thesis by simp
  qed
qed

lemma multiple_lines_not_Nil: "multiple_lines t w \<noteq> []"
  by (auto simp: multiple_lines_def Let_def split: prod.splits)

text \<open>
  Claim C2, as amended. The claim says that for every non-empty text and every width of
  at least 1 the wrapped lines, joined with single spaces, give the text back. The loop
  uses the empty string for "no line started yet", so an empty word (a leading space, or
  a doubled space at a line break) is absorbed; and when the first word does not fit,
  the still empty line is flushed as an element of its own. The statement that holds:
  when no word of the text is empty (the text has no leading, trailing or doubled space)
  and the first word is shorter than the width, joining the wrapped lines with single
  spaces gives the text back.
\<close>

theorem multiple_lines_join:
  assumes "[] \<notin> set (str_split '' '' text)"
    and "int (length (hd (str_split '' '' text))) < w"
  shows "str_join '' '' (multiple_lines text w) = text"
proof -
  obtain w0 ws where sp: "str_split '' '' text = w0 # ws"
    using str_split_not_Nil [of "'' ''" "text"] by (cases "str_split '' '' text") auto
  with assms have w0: "w0 \<noteq> []" and ws: "[] \<notin> set ws" and short: "int (length w0) < w"
    by auto
  have first: "multiple_lines_step w ([], []) w0 = ([], w0)"
    using short by (simp add: multiple_lines_step_def)
  obtain lines' line' where
    run: "foldl (multiple_lines_step w) ([], w0) ws = (lines', line')"
    and ne: "line' \<noteq> []"
    and j: "str_join '' '' (lines' @ [line']) = str_join '' '' ([] @ w0 # ws)"
    using multiple_lines_loop [OF ws w0, of w "[]"] by blast
  have "multiple_lines text w = lines' @ [line']"
    using sp first run ne by (simp add: multiple_lines_def)
  moreover have "str_join '' '' (w0 # ws) = text"
    using str_join_split [of "'' ''" "text"] sp by simp
  ultimately show ?thesis using j by simp
qed

theorem multiple_lines_join_witness:
  "[] \<notin> set (str_split '' '' ''hello world foo'') \<and>
   int (length (hd (str_split '' '' ''hello world foo''))) < 8 \<and>
   multiple_lines ''hello world foo'' 8 = [''hello'', ''world'', ''foo''] \<and>
   str_join '' '' (multiple_lines ''hello world foo'' 8) = ''hello world foo''"
proof -
  have a: "[] \<notin> set (str_split '' '' ''hello world foo'')" by simp
  have b: "int (length (hd (str_split '' '' ''hello world foo''))) < 8" by simp
  have c: "multiple_lines ''hello world foo'' 8 = [''hello'', ''world'', ''foo'']"
    by (simp add: multiple_lines_def multiple_lines_step_def)
  from a b c multiple_lines_join [OF a b] show ?thesis by blast
qed

text \<open>
  The claim as it was stated fails at the text \<^verbatim>\<open>hello\<close> with width 3 (an empty first
  element) and at the text \<^verbatim>\<open> a\<close> with width 10 (the leading space is lost).
\<close>

theorem multiple_lines_join_counterexample:
  "''hello'' \<noteq> [] \<and> (1::int) \<le> 3 \<and>
   multiple_lines ''hello'' 3 = ['''', ''hello''] \<and>
   str_join '' '' (multiple_lines ''hello'' 3) \<noteq> ''hello'' \<and>
   '' a'' \<noteq> [] \<and> (1::int) \<le> 10 \<and>
   multiple_lines '' a'' 10 = [''a''] \<and>
   str_join '' '' (multiple_lines '' a'' 10) \<noteq> '' a''"
  by (simp add: multiple_lines_def multiple_lines_step_def)

text \<open>
  Claim C9: for every width, wrapping the empty text gives the list whose one element is
  the empty string.
\<close>

theorem multiple_lines_empty_text: "multiple_lines '''' w = ['''']"
  by (simp add: multiple_lines_def multiple_lines_step_def Let_def)

lemma len_py_range: "length (py_range n) = nat n"
  by (simp add: py_range_def)

lemma str_join_spaces: "str_join [] (map (\<lambda>_. '' '') xs) = replicate (length xs) CHR '' ''"
proof (induction xs)
  case Nil then show ?case by simp
next
  case (Cons x xs) then show ?case by (cases xs) simp_all
qed

lemma adjusted_legth_text_eq:
  "adjusted_legth_text s w = s @ replicate (nat (w - int (length s))) CHR '' ''"
  by (simp add: adjusted_legth_text_def str_join_spaces len_py_range)

text \<open>
  Claim C8: for every string \<open>s\<close> and every width \<open>w\<close> (any integer), the padded string
  has length \<open>max (len s) w\<close>, is \<open>s\<close> followed by spaces only, and is \<open>s\<close> itself when
  \<open>s\<close> is already at or beyond the width.
\<close>

theorem adjusted_legth_text_pads:
  "int (length (adjusted_legth_text s w)) = max (int (length s)) w \<and>
   (\<exists>n. adjusted_legth_text s w = s @ replicate n CHR '' '') \<and>
   (w \<le> int (length s) \<longrightarrow> adjusted_legth_text s w = s)"
  by (auto simp: adjusted_legth_text_eq)

theorem adjusted_legth_text_pads_witness:
  "(2::int) \<le> int (length ''ab'') \<and> adjusted_legth_text ''ab'' 2 = ''ab'' \<and>
   int (length (adjusted_legth_text ''ab'' 5)) = 5"
  using adjusted_legth_text_pads [of "''ab''" 2] adjusted_legth_text_pads [of "''ab''" 5]
  by simp

section \<open>The Help Renderer\<close>

lemma longest_text_foldl_ge:
  "a \<le> foldl (\<lambda>max_length t. if length t > max_length then length t else max_length) a xs"
proof (induction xs arbitrary: a)
  case Nil
  then show ?case by simp
next
  case (Cons x xs)
  have "(if a < length x then length x else a)
          \<le> foldl (\<lambda>max_length t. if length t > max_length then length t else max_length)
               (if a < length x then length x else a) xs"
    by (rule Cons.IH)
  then show ?case by (simp split: if_splits)
qed

lemma longest_text_foldl_member:
  "x \<in> set xs \<Longrightarrow>
     length x \<le> foldl (\<lambda>max_length t. if length t > max_length then length t else max_length) a xs"
proof (induction xs arbitrary: a)
  case Nil
  then show ?case by simp
next
  case (Cons y xs)
  show ?case
  proof (cases "x = y")
    case True
    have "(if a < length y then length y else a)
          \<le> foldl (\<lambda>max_length t. if length t > max_length then length t else max_length)
               (if a < length y then length y else a) xs"
      by (rule longest_text_foldl_ge)
    with True show ?thesis by (simp split: if_splits)
  next
    case False
    with Cons show ?thesis by simp
  qed
qed

lemma longest_text_ge: "x \<in> set xs \<Longrightarrow> length x \<le> longest_text xs"
  unfolding longest_text_def by (rule longest_text_foldl_member)

lemma adjusted_legth_text_length:
  "length s \<le> n \<Longrightarrow> length (adjusted_legth_text s (int n)) = n"
  by (simp add: adjusted_legth_text_eq)

lemma adjusted_legth_text_blank:
  "adjusted_legth_text [] (int n) = replicate n CHR '' ''"
  by (simp add: adjusted_legth_text_eq)

lemma rows_continuation:
  "0 < k \<Longrightarrow>
   foldl (available_scripts_row L item) res (zip [k..<k + length segs] segs) =
     res @ concat (map (\<lambda>s. format_row (replicate L CHR '' '') s) segs)"
proof (induction segs arbitrary: k res)
  case Nil
  then show ?case by simp
next
  case (Cons s segs)
  have "[k..<k + length (s # segs)] = k # [Suc k..<Suc k + length segs]"
    by (subst upt_rec) simp
  with Cons.IH [of "Suc k"] Cons.prems show ?case
    by (simp add: available_scripts_row_def adjusted_legth_text_blank)
qed

lemma available_scripts_item_eq:
  "available_scripts_item L res item =
     res @ (case multiple_lines (title item) INLINE_DOC_CHARS of
              [] \<Rightarrow> []
            | seg # segs \<Rightarrow>
                format_row (adjusted_legth_text (name item) (int L)) seg @
                concat (map (\<lambda>s. format_row (replicate L CHR '' '') s) segs))"
proof (cases "multiple_lines (title item) INLINE_DOC_CHARS")
  case Nil
  then show ?thesis by (simp add: available_scripts_item_def enumerate_py_def)
next
  case (Cons seg segs)
  have "[0..<length (seg # segs)] = 0 # [1..<1 + length segs]"
    by (subst upt_rec) simp
  with Cons rows_continuation [of 1 L item _ segs] show ?thesis
    by (simp add: available_scripts_item_def enumerate_py_def available_scripts_row_def)
qed

lemma available_scripts_items:
  "foldl (available_scripts_item L) res data =
     res @ concat (map (\<lambda>item. available_scripts_item L [] item) data)"
proof (induction data arbitrary: res)
  case Nil
  then show ?case by simp
next
  case (Cons item data)
  have "available_scripts_item L res item = res @ available_scripts_item L [] item"
    by (simp add: available_scripts_item_eq)
  with Cons.IH [of "available_scripts_item L res item"] show ?case by simp
qed

text \<open>
  The physical lines of a text are the pieces between its newline characters. A text
  made of rows that each end in a newline and hold no other newline splits into those
  rows, followed by the empty piece after the last newline. The wrapped segments of a
  title hold only characters of the title and spaces.
\<close>

lemma str_split_line:
  "CHR ''\<newline>'' \<notin> set l \<Longrightarrow>
     str_split ''\<newline>'' (l @ CHR ''\<newline>'' # rest) = l # str_split ''\<newline>'' rest"
  by (induction l) auto

lemma str_split_lines:
  "\<forall>l\<in>set ls. CHR ''\<newline>'' \<notin> set l \<Longrightarrow>
     str_split ''\<newline>'' (concat (map (\<lambda>l. l @ ''\<newline>'') ls)) = ls @ ['''']"
  by (induction ls) (simp_all add: str_split_line)

lemma str_split_chars: "x \<in> set (str_split sep s) \<Longrightarrow> set x \<subseteq> set s"
proof (induction sep s arbitrary: x rule: str_split.induct)
  case (1 sep)
  then show ?case by simp
next
  case (2 sep c cs)
  show ?case
  proof (cases "sep \<noteq> [] \<and> prefix sep (c # cs)")
    case True
    with 2 have "x = [] \<or> x \<in> set (str_split sep (drop (length sep) (c # cs)))"
      by auto
    then show ?thesis
    proof
      assume "x = []" then show ?thesis by simp
    next
      assume "x \<in> set (str_split sep (drop (length sep) (c # cs)))"
      then have "set x \<subseteq> set (drop (length sep) (c # cs))"
        using 2(1) True by blast
      also have "\<dots> \<subseteq> set (c # cs)" by (rule set_drop_subset)
      finally show ?thesis .
    qed
  next
    case False
    obtain w ws where ws: "str_split sep cs = w # ws"
      using str_split_not_Nil [of sep cs] by (cases "str_split sep cs") auto
    with False 2(3) have "x = c # w \<or> x \<in> set ws" by auto
    moreover have "set w \<subseteq> set cs" using 2(2) [of w] False ws by auto
    moreover have "\<And>y. y \<in> set ws \<Longrightarrow> set y \<subseteq> set cs" using 2(2) False ws by auto
    ultimately show ?thesis by auto
  qed
qed

lemma multiple_lines_loop_chars:
  "\<forall>l\<in>set lines. set l \<subseteq> A \<Longrightarrow> set line \<subseteq> A \<Longrightarrow> \<forall>x\<in>set ws. set x \<subseteq> A \<Longrightarrow>
   CHR '' '' \<in> A \<Longrightarrow>
   foldl (multiple_lines_step w) (lines, line) ws = (lines', line') \<Longrightarrow>
   (\<forall>l\<in>set lines'. set l \<subseteq> A) \<and> set line' \<subseteq> A"
proof (induction ws arbitrary: lines line)
  case Nil
  then show ?case by simp
next
  case (Cons x ws)
  obtain lines1 line1 where step: "multiple_lines_step w (lines, line) x = (lines1, line1)"
    by (cases "multiple_lines_step w (lines, line) x") auto
  have "(\<forall>l\<in>set lines1. set l \<subseteq> A) \<and> set line1 \<subseteq> A"
    using step Cons.prems(1-4)
    by (auto simp: multiple_lines_step_def Let_def split: if_splits) blast+
  moreover have "foldl (multiple_lines_step w) (lines1, line1) ws = (lines', line')"
    using Cons.prems(5) step by simp
  ultimately show ?case
    using Cons.IH [of lines1 line1] Cons.prems(3,4) by simp
qed

lemma multiple_lines_chars:
  assumes "l \<in> set (multiple_lines t w)"
  shows "set l \<subseteq> insert CHR '' '' (set t)"
proof -
  obtain lines' line' where
    run: "foldl (multiple_lines_step w) ([], []) (str_split '' '' t) = (lines', line')"
    by (cases "foldl (multiple_lines_step w) ([], []) (str_split '' '' t)") auto
  have "\<forall>x\<in>set (str_split '' '' t). set x \<subseteq> insert CHR '' '' (set t)"
    using str_split_chars [of _ "'' ''" t] by blast
  then have "(\<forall>l\<in>set lines'. set l \<subseteq> insert CHR '' '' (set t)) \<and>
             set line' \<subseteq> insert CHR '' '' (set t)"
    using multiple_lines_loop_chars [of "[]" "insert CHR '' '' (set t)" "[]" "str_split '' '' t" w lines' line'] run
    by simp
  with assms run show ?thesis
    by (auto simp: multiple_lines_def Let_def split: if_splits)
qed

lemma multiple_lines_no_newline:
  "CHR ''\<newline>'' \<notin> set t \<Longrightarrow> l \<in> set (multiple_lines t w) \<Longrightarrow> CHR ''\<newline>'' \<notin> set l"
  using multiple_lines_chars [of l t w] by auto

lemma adjusted_legth_text_no_newline:
  "CHR ''\<newline>'' \<notin> set s \<Longrightarrow> CHR ''\<newline>'' \<notin> set (adjusted_legth_text s n)"
  by (simp add: adjusted_legth_text_eq)

lemma concat_lines_items:
  "concat (map (\<lambda>item. concat (map (\<lambda>l. l @ ''\<newline>'') (rows item))) data) =
     concat (map (\<lambda>l. l @ ''\<newline>'') (concat (map rows data)))"
  by (induction data) simp_all

text \<open>
  Claim C10, as amended. The claim says that every line of the listing begins with a
  single space before the name field. The wrapping splits a title at spaces only, so a
  newline inside a title stays inside its segment and the text after it starts a line of
  its own, without the space and the name field. The statement that holds: when the
  collector returns descriptors, the listing is the concatenation, descriptor by
  descriptor, of one row for each wrapped segment of the title; the first row is one
  space, the name padded to the length of the longest enumerated name, a tab, the segment
  and a newline, and every further row is one space, that many spaces, a tab, the segment
  and a newline. Each title has at least one segment, and each padded name has exactly
  the length of the longest enumerated name. When moreover no emitted name and no title
  holds a newline, the lines of the listing are exactly these rows, so that every line
  begins with the single space before the name field.
\<close>

theorem available_scripts_lines:
  assumes "get_quick_doc imp (get_import_names isfile listing) = Inr data"
  shows "available_scripts isfile listing imp =
           Inr (concat (map (\<lambda>item.
                  case multiple_lines (title item) INLINE_DOC_CHARS of
                    [] \<Rightarrow> []
                  | seg # segs \<Rightarrow>
                      ('' '' @ adjusted_legth_text (name item)
                                (int (longest_text (get_import_names isfile listing)))
                          @ [CHR 0x09] @ seg @ ''\<newline>'') @
                      concat (map (\<lambda>s. '' '' @ replicate (longest_text (get_import_names isfile listing)) CHR '' ''
                                          @ [CHR 0x09] @ s @ ''\<newline>'') segs)) data))
         \<and> (\<forall>item\<in>set data.
               multiple_lines (title item) INLINE_DOC_CHARS \<noteq> [] \<and>
               length (adjusted_legth_text (name item)
                         (int (longest_text (get_import_names isfile listing))))
                 = longest_text (get_import_names isfile listing))
         \<and> ((\<forall>item\<in>set data. CHR ''\<newline>'' \<notin> set (name item) \<and> CHR ''\<newline>'' \<notin> set (title item)) \<longrightarrow>
              (\<exists>out. available_scripts isfile listing imp = Inr out \<and>
                 str_split ''\<newline>'' out =
                   concat (map (\<lambda>item.
                     case multiple_lines (title item) INLINE_DOC_CHARS of
                       [] \<Rightarrow> []
                     | seg # segs \<Rightarrow>
                         ('' '' @ adjusted_legth_text (name item)
                                   (int (longest_text (get_import_names isfile listing)))
                             @ [CHR 0x09] @ seg) #
                         map (\<lambda>s. '' '' @ replicate (longest_text (get_import_names isfile listing)) CHR '' ''
                                      @ [CHR 0x09] @ s) segs) data)
                   @ ['''']))"
proof -
  let ?L = "longest_text (get_import_names isfile listing)"
  let ?rows = "\<lambda>item.
     case multiple_lines (title item) INLINE_DOC_CHARS of
       [] \<Rightarrow> []
     | seg # segs \<Rightarrow>
         ('' '' @ adjusted_legth_text (name item) (int ?L) @ [CHR 0x09] @ seg) #
         map (\<lambda>s. '' '' @ replicate ?L CHR '' '' @ [CHR 0x09] @ s) segs"
  have item_text: "available_scripts_item ?L [] item =
                     concat (map (\<lambda>l. l @ ''\<newline>'') (?rows item))" for item
    by (simp add: available_scripts_item_eq format_row_def [abs_def] comp_def
             split: list.splits)
  have out: "available_scripts isfile listing imp =
          Inr (concat (map (\<lambda>item. available_scripts_item ?L [] item) data))"
    using assms available_scripts_items [of ?L "[]" data]
    by (simp add: available_scripts_def)
  have widths: "\<forall>item\<in>set data. length (adjusted_legth_text (name item) (int ?L)) = ?L"
    using get_quick_doc_names [OF assms] longest_text_ge adjusted_legth_text_length
    by blast
  have rows_eq: "available_scripts isfile listing imp =
           Inr (concat (map (\<lambda>item.
                  case multiple_lines (title item) INLINE_DOC_CHARS of
                    [] \<Rightarrow> []
                  | seg # segs \<Rightarrow>
                      ('' '' @ adjusted_legth_text (name item) (int ?L)
                          @ [CHR 0x09] @ seg @ ''\<newline>'') @
                      concat (map (\<lambda>s. '' '' @ replicate ?L CHR '' ''
                                          @ [CHR 0x09] @ s @ ''\<newline>'') segs)) data))"
    using out
    by (simp add: available_scripts_item_eq format_row_def cong: list.case_cong)
  have lines: "str_split ''\<newline>''
                 (concat (map (\<lambda>item. available_scripts_item ?L [] item) data))
               = concat (map ?rows data) @ ['''']"
    if clean: "\<forall>item\<in>set data. CHR ''\<newline>'' \<notin> set (name item) \<and> CHR ''\<newline>'' \<notin> set (title item)"
  proof -
    have "CHR ''\<newline>'' \<notin> set l" if "item \<in> set data" and "l \<in> set (?rows item)" for item l
    proof -
      from that(1) clean have nm: "CHR ''\<newline>'' \<notin> set (adjusted_legth_text (name item) (int ?L))"
        and segs: "\<And>s. s \<in> set (multiple_lines (title item) INLINE_DOC_CHARS) \<Longrightarrow>
                     CHR ''\<newline>'' \<notin> set s"
        by (auto simp: adjusted_legth_text_no_newline dest: multiple_lines_no_newline)
      show ?thesis
      proof (cases "multiple_lines (title item) INLINE_DOC_CHARS")
        case Nil
        with that(2) show ?thesis by simp
      next
        case (Cons seg segs')
        with that(2) nm segs show ?thesis by auto
      qed
    qed
    then have "\<forall>l\<in>set (concat (map ?rows data)). CHR ''\<newline>'' \<notin> set l"
      by auto
    then have "str_split ''\<newline>'' (concat (map (\<lambda>l. l @ ''\<newline>'') (concat (map ?rows data))))
                 = concat (map ?rows data) @ ['''']"
      by (rule str_split_lines)
    then show ?thesis
      by (simp only: item_text concat_lines_items)
  qed
  from rows_eq widths lines out show ?thesis
    by (simp add: multiple_lines_not_Nil)
qed

theorem available_scripts_lines_witness:
  "get_quick_doc
     (\<lambda>n. if n = ''backup''
           then Loaded \<lparr>doc = Some ''\<newline>Makes a dated copy of every file below the current folder and uploads the copies\<newline>===\<newline>manual'', main_op = None\<rparr>
           else Raises ModuleNotFoundError)
     (get_import_names (\<lambda>n. n = ''backup.py'' \<or> n = ''may.py'') [''backup.py'', ''tools'', ''may.py''])
     = Inr [\<lparr>name = ''backup'',
             title = ''Makes a dated copy of every file below the current folder and uploads the copies''\<rparr>] \<and>
   CHR ''\<newline>'' \<notin> set ''backup'' \<and>
   CHR ''\<newline>'' \<notin> set ''Makes a dated copy of every file below the current folder and uploads the copies'' \<and>
   available_scripts (\<lambda>n. n = ''backup.py'' \<or> n = ''may.py'') [''backup.py'', ''tools'', ''may.py'']
     (\<lambda>n. if n = ''backup''
           then Loaded \<lparr>doc = Some ''\<newline>Makes a dated copy of every file below the current folder and uploads the copies\<newline>===\<newline>manual'', main_op = None\<rparr>
           else Raises ModuleNotFoundError)
     = Inr ('' backup'' @ [CHR 0x09] @
            ''Makes a dated copy of every file below the current folder and uploads\<newline>'' @
            ''       '' @ [CHR 0x09] @ ''the copies\<newline>'') \<and>
   str_split ''\<newline>''
     ('' backup'' @ [CHR 0x09] @
      ''Makes a dated copy of every file below the current folder and uploads\<newline>'' @
      ''       '' @ [CHR 0x09] @ ''the copies\<newline>'')
     = ['' backup'' @ [CHR 0x09] @
          ''Makes a dated copy of every file below the current folder and uploads'',
        ''       '' @ [CHR 0x09] @ ''the copies'',
        '''']"
proof -
  let ?imp = "\<lambda>n. if n = ''backup''
           then Loaded \<lparr>doc = Some ''\<newline>Makes a dated copy of every file below the current folder and uploads the copies\<newline>===\<newline>manual'', main_op = None\<rparr>
           else Raises ModuleNotFoundError"
  let ?isfile = "\<lambda>n. n = ''backup.py'' \<or> n = ''may.py''"
  let ?listing = "[''backup.py'', ''tools'', ''may.py'']"
  have names: "get_import_names ?isfile ?listing = [''backup'', ''tools'']"
    by (simp add: re_match_py_def)
  have h: "get_quick_doc ?imp (get_import_names ?isfile ?listing)
           = Inr [\<lparr>name = ''backup'',
             title = ''Makes a dated copy of every file below the current folder and uploads the copies''\<rparr>]"
    unfolding names
    by (simp add: doc_or_empty_def extract_doc_title_def re_match_newline_def)
  have ml: "multiple_lines ''Makes a dated copy of every file below the current folder and uploads the copies'' INLINE_DOC_CHARS
      = [''Makes a dated copy of every file below the current folder and uploads'', ''the copies'']"
    by (simp add: multiple_lines_def multiple_lines_step_def INLINE_DOC_CHARS_def)
  have lt: "longest_text [''backup'', ''tools''] = 6"
    by (simp add: longest_text_def)
  have adj: "adjusted_legth_text ''backup'' 6 = ''backup''"
    by (simp add: adjusted_legth_text_def)
  have six: "replicate 6 CHR '' '' = ''      ''"
    by (simp add: numeral_eq_Suc)
  have clean: "CHR ''\<newline>'' \<notin> set ''backup''"
    "CHR ''\<newline>'' \<notin> set ''Makes a dated copy of every file below the current folder and uploads the copies''"
    by simp_all
  from available_scripts_lines [OF h] h clean show ?thesis
    unfolding names by (auto simp: ml lt adj six simp del: str_split.simps)
qed

text \<open>
  The claim as it was stated fails for a module \<^verbatim>\<open>m\<close> whose documentation is the two
  lines \<^verbatim>\<open>First line\<close> and \<^verbatim>\<open>Second line\<close> with no delimiter: the title holds the
  newline, it is one segment, and the second line of the listing is \<^verbatim>\<open>Second line\<close>,
  which does not begin with a space.
\<close>

theorem available_scripts_lines_counterexample:
  "available_scripts (\<lambda>n. True) [''m.py'']
     (\<lambda>n. if n = ''m'' then Loaded \<lparr>doc = Some ''First line\<newline>Second line'', main_op = None\<rparr>
           else Raises ModuleNotFoundError)
     = Inr ('' m'' @ [CHR 0x09] @ ''First line\<newline>Second line\<newline>'') \<and>
   str_split ''\<newline>'' ('' m'' @ [CHR 0x09] @ ''First line\<newline>Second line\<newline>'')
     = ['' m'' @ [CHR 0x09] @ ''First line'', ''Second line'', ''''] \<and>
   \<not> prefix '' '' ''Second line''"
  by (simp add: available_scripts_def re_match_py_def doc_or_empty_def extract_doc_title_def
        re_match_newline_def longest_text_def available_scripts_item_def
        multiple_lines_def multiple_lines_step_def INLINE_DOC_CHARS_def enumerate_py_def
        available_scripts_row_def format_row_def adjusted_legth_text_def)

section \<open>The Dispatcher\<close>

text \<open>
  Claim C3: when there is at least one user argument and the arguments are not the word
  \<^verbatim>\<open>manual\<close> followed by exactly one name, the dispatcher loads the module named by the
  first user argument and calls its \<open>main\<close> with the raw argument list without its
  first two entries: the outcome of the run is the outcome of that call (a
  ModuleNotFoundError that leaves the call is reported by the fixed message). So
  \<^verbatim>\<open>may echo hello\<close> hands \<^verbatim>\<open>["hello"]\<close> to echo, and \<^verbatim>\<open>may manual echo hello\<close> loads a
  module named manual and hands it \<^verbatim>\<open>["echo", "hello"]\<close>.
\<close>

theorem main_runs_script:
  assumes "2 \<le> length argv"
    and "\<not> (argv ! 1 = ''manual'' \<and> length argv = 3)"
    and "imp (argv ! 1) = Loaded m"
    and "main_op m = Some f"
  shows "main isfile listing imp argv =
           (case f (drop 2 argv) of
              (out, None) \<Rightarrow> (out, None)
            | (out, Some e) \<Rightarrow>
                if e = ModuleNotFoundError then (out @ [''ERROR: Script not found''], None)
                else (out, Some e))"
proof -
  have long: "\<not> length argv \<le> 1" using assms(1) by simp
  have "main isfile listing imp argv =
          (case f (drop 2 argv) of
             (out, None) \<Rightarrow> (out, None)
           | (out, Some e) \<Rightarrow> handle_not_found out e)"
    unfolding main_def using long assms(2-4) by (simp only: if_False Let_def) simp
  then show ?thesis
    by (simp add: handle_not_found_def not_found_message_def
             split: prod.splits option.splits)
qed

theorem main_runs_script_witness:
  "main (\<lambda>n. True) [''echo.py'']
        (\<lambda>n. if n = ''echo'' then Loaded \<lparr>doc = None, main_op = Some (\<lambda>args. (args, None))\<rparr>
              else Raises ModuleNotFoundError)
        [''may.py'', ''echo'', ''hello''] = ([''hello''], None) \<and>
   main (\<lambda>n. True) [''manual.py'']
        (\<lambda>n. if n = ''manual'' then Loaded \<lparr>doc = None, main_op = Some (\<lambda>args. (args, None))\<rparr>
              else Raises ModuleNotFoundError)
        [''may.py'', ''manual'', ''echo'', ''hello''] = ([''echo'', ''hello''], None)"
  using main_runs_script
          [where argv = "[''may.py'', ''echo'', ''hello'']"
             and imp = "\<lambda>n. if n = ''echo''
                            then Loaded \<lparr>doc = None, main_op = Some (\<lambda>args. (args, None))\<rparr>
                            else Raises ModuleNotFoundError"
             and m = "\<lparr>doc = None, main_op = Some (\<lambda>args. (args, None))\<rparr>"
             and f = "\<lambda>args. (args, None)"
             and isfile = "\<lambda>n. True" and listing = "[''echo.py'']"]
        main_runs_script
          [where argv = "[''may.py'', ''manual'', ''echo'', ''hello'']"
             and imp = "\<lambda>n. if n = ''manual''
                            then Loaded \<lparr>doc = None, main_op = Some (\<lambda>args. (args, None))\<rparr>
                            else Raises ModuleNotFoundError"
             and m = "\<lparr>doc = None, main_op = Some (\<lambda>args. (args, None))\<rparr>"
             and f = "\<lambda>args. (args, None)"
             and isfile = "\<lambda>n. True" and listing = "[''manual.py'']"]
  by simp

lemma general_help_not_message:
  "general_help isfile listing imp \<noteq> Inr ''ERROR: Script not found''"
  by (simp add: general_help_def banner_before_def split: sum.splits)

lemma general_help_not_ModuleNotFoundError:
  "general_help isfile listing imp \<noteq> Inl ModuleNotFoundError"
  using get_quick_doc_not_ModuleNotFoundError [of imp "get_import_names isfile listing"]
  by (auto simp: general_help_def available_scripts_def Let_def split: sum.splits)

text \<open>
  Claim C4: in manual mode and in run mode a ModuleNotFoundError of the loading is not
  propagated; the run prints the fixed message and nothing else. In manual mode a module
  that loads has its documentation printed as it is, or the empty string (an empty line)
  when it has none. In help mode the message is never printed and ModuleNotFoundError
  never leaves the run: a name that is not found is only left out of the listing.
\<close>

theorem main_script_not_found:
  "(imp nma = Raises ModuleNotFoundError \<longrightarrow>
      main isfile listing imp [prog, ''manual'', nma] = ([''ERROR: Script not found''], None)) \<and>
   (imp nmb = Raises ModuleNotFoundError \<and> \<not> (nmb = ''manual'' \<and> length rest = 1) \<longrightarrow>
      main isfile listing imp (prog # nmb # rest) = ([''ERROR: Script not found''], None)) \<and>
   (imp nmc = Loaded m \<longrightarrow>
      main isfile listing imp [prog, ''manual'', nmc] =
        ([case doc m of None \<Rightarrow> [] | Some d \<Rightarrow> d], None)) \<and>
   (length argv \<le> 1 \<longrightarrow>
      ''ERROR: Script not found'' \<notin> set (fst (main isfile listing imp argv)) \<and>
      snd (main isfile listing imp argv) \<noteq> Some ModuleNotFoundError)"
proof -
  have manual_nf: "imp nma = Raises ModuleNotFoundError \<longrightarrow>
      main isfile listing imp [prog, ''manual'', nma] = ([''ERROR: Script not found''], None)"
    by (simp add: main_def handle_not_found_def not_found_message_def)
  have run_nf: "imp nmb = Raises ModuleNotFoundError \<and> \<not> (nmb = ''manual'' \<and> length rest = 1) \<longrightarrow>
      main isfile listing imp (prog # nmb # rest) = ([''ERROR: Script not found''], None)"
    by (auto simp: main_def handle_not_found_def not_found_message_def)
  have manual_ok: "imp nmc = Loaded m \<longrightarrow>
      main isfile listing imp [prog, ''manual'', nmc] =
        ([case doc m of None \<Rightarrow> [] | Some d \<Rightarrow> d], None)"
    by (simp add: main_def doc_or_empty_def split: option.splits)
  have help_mode: "length argv \<le> 1 \<longrightarrow>
      ''ERROR: Script not found'' \<notin> set (fst (main isfile listing imp argv)) \<and>
      snd (main isfile listing imp argv) \<noteq> Some ModuleNotFoundError"
    using general_help_not_message [of isfile listing imp]
          general_help_not_ModuleNotFoundError [of isfile listing imp]
    by (auto simp: main_def split: sum.splits)
  from manual_nf run_nf manual_ok help_mode show ?thesis by blast
qed

theorem main_script_not_found_witness:
  "main (\<lambda>n. True) [''echo.py'']
     (\<lambda>n. if n = ''echo'' then Loaded \<lparr>doc = None, main_op = None\<rparr> else Raises ModuleNotFoundError)
     [''may.py'', ''manual'', ''doesnotexist''] = ([''ERROR: Script not found''], None) \<and>
   main (\<lambda>n. True) [''echo.py'']
     (\<lambda>n. if n = ''echo'' then Loaded \<lparr>doc = None, main_op = None\<rparr> else Raises ModuleNotFoundError)
     [''may.py'', ''nothere'', ''x''] = ([''ERROR: Script not found''], None) \<and>
   main (\<lambda>n. True) [''echo.py'']
     (\<lambda>n. if n = ''echo'' then Loaded \<lparr>doc = None, main_op = None\<rparr> else Raises ModuleNotFoundError)
     [''may.py'', ''manual'', ''echo''] = ([''''], None) \<and>
   main (\<lambda>n. True) [''echo.py'']
     (\<lambda>n. Loaded \<lparr>doc = Some ''Echo\<newline>===\<newline>Prints its arguments.'', main_op = None\<rparr>)
     [''may.py'', ''manual'', ''echo''] = ([''Echo\<newline>===\<newline>Prints its arguments.''], None) \<and>
   ''ERROR: Script not found'' \<notin> set (fst (main (\<lambda>n. True) [''echo.py'']
     (\<lambda>n. if n = ''echo'' then Loaded \<lparr>doc = None, main_op = None\<rparr> else Raises ModuleNotFoundError)
     [''may.py'']))"
  using main_script_not_found
          [where imp = "\<lambda>n. if n = ''echo'' then Loaded \<lparr>doc = None, main_op = None\<rparr>
                            else Raises ModuleNotFoundError"
             and nma = "''doesnotexist''" and nmb = "''nothere''" and rest = "[''x'']"
             and nmc = "''echo''" and m = "\<lparr>doc = None, main_op = None\<rparr>"
             and argv = "[''may.py'']" and prog = "''may.py''"
             and isfile = "\<lambda>n. True" and listing = "[''echo.py'']"]
        main_script_not_found
          [where imp = "\<lambda>n. Loaded \<lparr>doc = Some ''Echo\<newline>===\<newline>Prints its arguments.'', main_op = None\<rparr>"
             and nmc = "''echo''"
             and m = "\<lparr>doc = Some ''Echo\<newline>===\<newline>Prints its arguments.'', main_op = None\<rparr>"
             and prog = "''may.py''"
             and isfile = "\<lambda>n. True" and listing = "[''echo.py'']"]
  by simp

end
